theory Spec2Isabelle
  imports Main "HOL-Library.Char_ord" "HOL-Library.List_Lexorder"
begin

section \<open>Data model (internal/db/firebase.go)\<close>

text \<open>
  The strict room structure. \<open>Board\<close> is the Go array \<open>[9]string\<close>, kept as a list
  whose length is 9 in every value the code builds; \<open>WinningLine\<close> is a slice
  (\<open>nil\<close> and the empty slice are both \<open>[]\<close>); the \<open>int\<close> counters are
  unbounded integers here (no claim reaches a counter overflow).
\<close>

record Room =
  Code :: string
  Board :: "string list"
  Turn :: string
  PlayerX :: string
  PlayerO :: string
  PlayerXName :: string
  PlayerOName :: string
  IsPublic :: bool
  Winner :: string
  WinningLine :: "int list"
  Status :: string
  WinsX :: int
  WinsO :: int

text \<open>
  One entry of the loosely typed board \<open>[]interface{}\<close> of \<open>rawRoom\<close>, by the
  dynamic type the switch of \<open>sanitizeRoom\<close> tests: a string, a \<open>float64\<close> (the
  type parameter \<open>'f\<close>; its formatting \<open>%.0f\<close> is a parameter of the model), an
  \<open>int\<close>, or anything else (null, bool, object, array).
\<close>

datatype 'f jval = JString string | JFloat 'f | JInt int | JOther

record 'f rawRoom =
  raw_Code :: string
  raw_Board :: "'f jval list"
  raw_Turn :: string
  raw_PlayerX :: string
  raw_PlayerO :: string
  raw_PlayerXName :: string
  raw_PlayerOName :: string
  raw_IsPublic :: bool
  raw_Winner :: string
  raw_WinningLine :: "int list"
  raw_Status :: string
  raw_WinsX :: int
  raw_WinsO :: int

text \<open>
  The errors of the adapter: a failure reported by the store client (transport or
  unmarshalling), the three \<open>fmt.Errorf\<close> values, and the run-time panic of an array
  index out of range.
\<close>

datatype error =
    StoreError
  | RoomDoesNotExist
  | RoomNotFound
  | RoomIsFull
  | IndexOutOfRange

definition emptyBoard :: "string list" where
  "emptyBoard = ['' '', '' '', '' '', '' '', '' '', '' '', '' '', '' '', '' '']"

section \<open>The sanitizing read path\<close>

text \<open>\<open>fmt.Sprintf("%d", v)\<close> on an \<open>int\<close>: the decimal digits, with a minus sign.\<close>

definition digit_char :: "nat \<Rightarrow> char" where
  "digit_char d = char_of (48 + d)"

fun decimal :: "nat \<Rightarrow> string" where
  "decimal n = (if n < 10 then [digit_char n] else decimal (n div 10) @ [digit_char (n mod 10)])"

definition Sprintf_d :: "int \<Rightarrow> string" where
  "Sprintf_d v = (if v < 0 then CHR ''-'' # decimal (nat (- v)) else decimal (nat v))"

text \<open>
  The type switch of \<open>sanitizeRoom\<close>; \<open>fmt_f\<close> stands for \<open>fmt.Sprintf("%.0f", v)\<close>.
\<close>

fun convert_cell :: "('f \<Rightarrow> string) \<Rightarrow> 'f jval \<Rightarrow> string" where
  "convert_cell fmt_f (JString v) = v"
| "convert_cell fmt_f (JFloat v) = fmt_f v"
| "convert_cell fmt_f (JInt v) = Sprintf_d v"
| "convert_cell fmt_f JOther = '' ''"

text \<open>
  \<open>for i, val := range raw.Board { if i >= 9 { break }; clean.Board[i] = ... }\<close>:
  \<open>i\<close> is the index of the head of the remaining entries, \<open>b\<close> the board so far.
\<close>

fun sanitize_loop :: "('f \<Rightarrow> string) \<Rightarrow> nat \<Rightarrow> 'f jval list \<Rightarrow> string list \<Rightarrow> string list" where
  "sanitize_loop fmt_f i [] b = b"
| "sanitize_loop fmt_f i (val # rest) b =
     (if 9 \<le> i then b else sanitize_loop fmt_f (Suc i) rest (b[i := convert_cell fmt_f val]))"

definition sanitizeRoom :: "('f \<Rightarrow> string) \<Rightarrow> string \<Rightarrow> 'f rawRoom \<Rightarrow> Room" where
  "sanitizeRoom fmt_f code raw =
     (let clean = \<lparr>Code = code, Board = replicate 9 [], Turn = raw_Turn raw,
                    PlayerX = raw_PlayerX raw, PlayerO = raw_PlayerO raw,
                    PlayerXName = raw_PlayerXName raw, PlayerOName = raw_PlayerOName raw,
                    IsPublic = raw_IsPublic raw, Winner = raw_Winner raw,
                    WinningLine = raw_WinningLine raw, Status = raw_Status raw,
                    WinsX = raw_WinsX raw, WinsO = raw_WinsO raw\<rparr>;
          clean = (if Code clean = [] then clean\<lparr>Code := code\<rparr> else clean);
          clean = clean\<lparr>Board := emptyBoard\<rparr>
      in clean\<lparr>Board := sanitize_loop fmt_f 0 (raw_Board raw) (Board clean)\<rparr>)"

section \<open>The remote store\<close>

text \<open>
  The store holds one document per room code under \<open>rooms/\<close>. A document either
  unmarshals into \<open>rawRoom\<close> (\<open>Doc\<close>) or does not (\<open>Malformed\<close>: a field of the
  wrong JSON type); an absent path reads as JSON null, which unmarshals into the zero
  \<open>rawRoom\<close>. The store is reachable: transport failures are outside the model, and
  the callers keep their \<open>err != nil\<close> branches. An operation that writes returns
  the store after it together with its \<open>error\<close> result (\<open>None\<close> is \<open>nil\<close>).
\<close>

datatype 'f doc = Doc "'f rawRoom" | Malformed

type_synonym 'f store = "string \<Rightarrow> 'f doc option"

definition zero_rawRoom :: "'f rawRoom" where
  "zero_rawRoom =
     \<lparr>raw_Code = [], raw_Board = [], raw_Turn = [], raw_PlayerX = [], raw_PlayerO = [],
      raw_PlayerXName = [], raw_PlayerOName = [], raw_IsPublic = False, raw_Winner = [],
      raw_WinningLine = [], raw_Status = [], raw_WinsX = 0, raw_WinsO = 0\<rparr>"

definition ref_Get :: "'f store \<Rightarrow> string \<Rightarrow> error + 'f rawRoom" where
  "ref_Get st code =
     (case st code of
        None \<Rightarrow> Inr zero_rawRoom
      | Some Malformed \<Rightarrow> Inl StoreError
      | Some (Doc raw) \<Rightarrow> Inr raw)"

definition ref_Set :: "'f store \<Rightarrow> string \<Rightarrow> 'f rawRoom \<Rightarrow> 'f store \<times> error option" where
  "ref_Set st code v = (st(code \<mapsto> Doc v), None)"

text \<open>
  The JSON that \<open>Set\<close> writes for a strict \<open>Room\<close>, as \<open>rawRoom\<close> reads it back:
  the two structs carry the same JSON field names, and the board is an array of strings.
\<close>

definition encode :: "Room \<Rightarrow> 'f rawRoom" where
  "encode r =
     \<lparr>raw_Code = Code r, raw_Board = map JString (Board r), raw_Turn = Turn r,
      raw_PlayerX = PlayerX r, raw_PlayerO = PlayerO r,
      raw_PlayerXName = PlayerXName r, raw_PlayerOName = PlayerOName r,
      raw_IsPublic = IsPublic r, raw_Winner = Winner r,
      raw_WinningLine = WinningLine r, raw_Status = Status r,
      raw_WinsX = WinsX r, raw_WinsO = WinsO r\<rparr>"

text \<open>
  \<open>ref.Transaction(ctx, fn)\<close>: \<open>fn\<close> receives the current document (here already
  through \<open>tn.Unmarshal\<close>); an error of \<open>fn\<close> aborts and nothing is written,
  otherwise the returned value replaces the document. Transactions on one document
  are atomic with respect to each other (the client retries a conflicting one on the
  newer document), so each is one step on the store.
\<close>

definition Transaction ::
  "'f store \<Rightarrow> string \<Rightarrow> (error + 'f rawRoom \<Rightarrow> error + 'f rawRoom) \<Rightarrow>
   'f store \<times> error option" where
  "Transaction st code fn =
     (case fn (ref_Get st code) of
        Inl err \<Rightarrow> (st, Some err)
      | Inr v \<Rightarrow> (st(code \<mapsto> Doc v), None))"

section \<open>Room lifecycle (internal/db/firebase.go)\<close>

definition CreateRoom ::
  "'f store \<Rightarrow> string \<Rightarrow> string \<Rightarrow> string \<Rightarrow> bool \<Rightarrow> 'f store \<times> error option" where
  "CreateRoom st code pid name public =
     (let r = \<lparr>Code = code, Board = emptyBoard, Turn = ''X'', PlayerX = pid, PlayerO = [],
                PlayerXName = name, PlayerOName = [], IsPublic = public, Winner = [],
                WinningLine = [], Status = ''waiting'', WinsX = 0, WinsO = 0\<rparr>
      in ref_Set st code (encode r))"

definition GetRoom :: "('f \<Rightarrow> string) \<Rightarrow> 'f store \<Rightarrow> string \<Rightarrow> error + Room" where
  "GetRoom fmt_f st code =
     (case ref_Get st code of
        Inl err \<Rightarrow> Inl err
      | Inr raw \<Rightarrow>
          if raw_PlayerX raw = [] then Inl RoomDoesNotExist
          else Inr (sanitizeRoom fmt_f code raw))"

text \<open>The transaction body of \<open>JoinRoom\<close>, on the outcome of \<open>tn.Unmarshal(&raw)\<close>.\<close>

definition JoinRoom_fn :: "string \<Rightarrow> string \<Rightarrow> error + 'f rawRoom \<Rightarrow> error + 'f rawRoom" where
  "JoinRoom_fn pid name node =
     (case node of
        Inl err \<Rightarrow> Inl err
      | Inr raw \<Rightarrow>
          if raw_PlayerX raw = [] then Inl RoomNotFound
          else if raw_PlayerO raw \<noteq> [] \<and> raw_PlayerO raw \<noteq> pid then Inl RoomIsFull
          else Inr (raw\<lparr>raw_PlayerO := pid, raw_PlayerOName := name,
                        raw_Status := ''playing''\<rparr>))"

definition JoinRoom ::
  "'f store \<Rightarrow> string \<Rightarrow> string \<Rightarrow> string \<Rightarrow> 'f store \<times> error option" where
  "JoinRoom st code pid name = Transaction st code (JoinRoom_fn pid name)"



text \<open>
  The transaction body of \<open>RestartGame\<close>. Its argument is the outcome of
  \<open>tn.Unmarshal(&r)\<close>: an error, or the current room.
\<close>

definition RestartGame_fn :: "error + Room \<Rightarrow> error + Room" where
  "RestartGame_fn node =
     (case node of
        Inl err \<Rightarrow> Inl err
      | Inr r \<Rightarrow>
          Inr (r\<lparr>Board := emptyBoard, Winner := [], WinningLine := [],
                 Status := ''playing'', Turn := ''X''\<rparr>))"

text \<open>
  \<open>GetPublicRooms\<close>. The argument is the outcome of \<open>ref.Get(ctx, &rawMap)\<close>: an
  error, or the entries of the Go map in the order \<open>range\<close> happens to visit them
  (any order; the keys of a map are distinct). \<open>sort.Slice\<close> with the less function
  \<open>list[i].Code < list[j].Code\<close> is a sort by the key \<open>Code\<close>; strings compare
  bytewise, as \<open>char list\<close> does lexicographically.
\<close>

fun collect_public :: "('f \<Rightarrow> string) \<Rightarrow> (string \<times> 'f rawRoom) list \<Rightarrow> Room list \<Rightarrow> Room list" where
  "collect_public fmt_f [] list = list"
| "collect_public fmt_f ((code, raw) # rest) list =
     collect_public fmt_f rest
       (if raw_IsPublic raw then list @ [sanitizeRoom fmt_f code raw] else list)"

definition GetPublicRooms ::
  "('f \<Rightarrow> string) \<Rightarrow> error + (string \<times> 'f rawRoom) list \<Rightarrow> error + Room list" where
  "GetPublicRooms fmt_f fetched =
     (case fetched of
        Inl err \<Rightarrow> Inl err
      | Inr rawMap \<Rightarrow> Inr (sort_key Code (collect_public fmt_f rawMap [])))"

section \<open>The single-file program (package main)\<close>

text \<open>
  The room document of the single-file program, and the transaction body of its
  \<open>triggerRematchCmd(code, rule, prevWinner)\<close>. \<open>coin\<close> is the value of
  \<open>rand.Intn(2)\<close>, drawn only under the rule \<open>"random"\<close>.
\<close>

record RoomData =
  rd_Board :: "string list"
  rd_Turn :: string
  rd_PlayerX :: string
  rd_PlayerO :: string
  rd_PlayerXName :: string
  rd_PlayerOName :: string
  rd_Winner :: string
  rd_Status :: string

definition triggerRematch_fn ::
  "string \<Rightarrow> string \<Rightarrow> int \<Rightarrow> error + RoomData \<Rightarrow> error + RoomData" where
  "triggerRematch_fn rule prevWinner coin node =
     (case node of
        Inl err \<Rightarrow> Inl err
      | Inr r0 \<Rightarrow>
          let r = r0\<lparr>rd_Board := emptyBoard\<rparr>;
              newTurn =
                (if rule = ''random'' then (if coin = 0 then ''O'' else ''X'')
                 else if rule = ''winner'' then (if prevWinner = ''O'' then ''O'' else ''X'')
                 else ''X'')
          in Inr (r\<lparr>rd_Turn := newTurn, rd_Winner := [], rd_Status := ''playing''\<rparr>))"

text \<open>\<open>checkWinner\<close>: the table \<open>wins\<close> and the loop over it.\<close>

definition wins :: "nat list list" where
  "wins = [[0, 1, 2], [3, 4, 5], [6, 7, 8],
           [0, 3, 6], [1, 4, 7], [2, 5, 8],
           [0, 4, 8], [2, 4, 6]]"

fun checkWinner_loop :: "nat list list \<Rightarrow> string list \<Rightarrow> string" where
  "checkWinner_loop [] b = []"
| "checkWinner_loop (w # rest) b =
     (if b ! (w ! 0) \<noteq> '' '' \<and> b ! (w ! 0) = b ! (w ! 1) \<and> b ! (w ! 1) = b ! (w ! 2)
      then b ! (w ! 0)
      else checkWinner_loop rest b)"

definition checkWinner :: "string list \<Rightarrow> string" where
  "checkWinner b = checkWinner_loop wins b"

section \<open>The game screen (updateGame of package ui)\<close>

text \<open>
  The fields of \<open>Model\<close> that \<open>updateGame\<close> reads or writes, the messages it
  distinguishes, and the commands it returns (\<open>NoCmd\<close> is \<open>nil\<close>; the two closures
  are named by the adapter call they make, with its arguments).
\<close>

datatype SessionState =
    StateNameInput | StateMenu | StatePublicList | StateCreateConfig
  | StateInputCode | StateLobby | StateGame





section \<open>The rules engine as the specification words it\<close>

text \<open>
  The scan order of the specification: the three rows top to bottom, the three columns
  left to right, then the two diagonals; a triple matches when its three cells are
  equal and not the empty cell.
\<close>

definition row_triple :: "nat \<Rightarrow> nat list" where
  "row_triple r = [3 * r, 3 * r + 1, 3 * r + 2]"

definition col_triple :: "nat \<Rightarrow> nat list" where
  "col_triple c = [c, c + 3, c + 6]"

definition scan_order :: "nat list list" where
  "scan_order = map row_triple [0, 1, 2] @ map col_triple [0, 1, 2] @ [[0, 4, 8], [2, 4, 6]]"

definition triple_matches :: "string list \<Rightarrow> nat list \<Rightarrow> bool" where
  "triple_matches b w =
     (b ! (w ! 0) \<noteq> '' '' \<and> b ! (w ! 0) = b ! (w ! 1) \<and> b ! (w ! 1) = b ! (w ! 2))"



section \<open>Example values\<close>

text \<open>
  A finished room that O has won (X at 3, 4, 7; O completed the top row), a room in
  play after X's first move at cell 0, a raw document whose board mixes a string, a
  number, a null and a string and stops after four entries, and a finished document
  of the single-file program. In the examples a number is an \<open>int\<close> and prints
  through \<open>Sprintf_d\<close>, as \<open>%.0f\<close> prints a whole number.
\<close>

definition room_won_by_O :: Room where
  "room_won_by_O =
     \<lparr>Code = ''AB3D'', Board = [''O'', ''O'', ''O'', ''X'', ''X'', '' '', '' '', ''X'', '' ''],
      Turn = ''O'', PlayerX = ''p1'', PlayerO = ''p2'', PlayerXName = ''Alice'',
      PlayerOName = ''Bob'', IsPublic = True, Winner = ''O'', WinningLine = [0, 1, 2],
      Status = ''finished'', WinsX = 0, WinsO = 1\<rparr>"

definition room_in_play :: Room where
  "room_in_play =
     \<lparr>Code = ''AB3D'', Board = [''X'', '' '', '' '', '' '', '' '', '' '', '' '', '' '', '' ''],
      Turn = ''O'', PlayerX = ''p1'', PlayerO = ''p2'', PlayerXName = ''Alice'',
      PlayerOName = ''Bob'', IsPublic = True, Winner = [], WinningLine = [],
      Status = ''playing'', WinsX = 0, WinsO = 0\<rparr>"

definition raw_mixed :: "int rawRoom" where
  "raw_mixed =
     \<lparr>raw_Code = ''AB3D'', raw_Board = [JString ''X'', JFloat 0, JOther, JString ''O''],
      raw_Turn = ''X'', raw_PlayerX = ''p1'', raw_PlayerO = ''p2'',
      raw_PlayerXName = ''Alice'', raw_PlayerOName = ''Bob'', raw_IsPublic = True,
      raw_Winner = [], raw_WinningLine = [], raw_Status = ''playing'',
      raw_WinsX = 0, raw_WinsO = 0\<rparr>"

definition raw_private :: "int rawRoom" where
  "raw_private = raw_mixed\<lparr>raw_IsPublic := False\<rparr>"

definition rd_won_by_O :: RoomData where
  "rd_won_by_O =
     \<lparr>rd_Board = [''O'', ''O'', ''O'', ''X'', ''X'', '' '', '' '', ''X'', '' ''],
      rd_Turn = ''X'', rd_PlayerX = ''p1'', rd_PlayerO = ''p2'', rd_PlayerXName = ''Alice'',
      rd_PlayerOName = ''Bob'', rd_Winner = ''O'', rd_Status = ''finished''\<rparr>"


definition no_rooms :: "int store" where
  "no_rooms = (\<lambda>code. None)"

text \<open>
  The store after \<open>CreateRoom("AB3D", "p1", "Alice", true)\<close> on an empty store, the
  document it holds, and the store after a first join; a board on which the first
  matching triple in scan order is the middle column; three entries of a room listing.
\<close>

definition fresh_raw :: "int rawRoom" where
  "fresh_raw =
     encode \<lparr>Code = ''AB3D'', Board = emptyBoard, Turn = ''X'', PlayerX = ''p1'',
             PlayerO = [], PlayerXName = ''Alice'', PlayerOName = [], IsPublic = True,
             Winner = [], WinningLine = [], Status = ''waiting'', WinsX = 0, WinsO = 0\<rparr>"

definition fresh_store :: "int store" where
  "fresh_store = fst (CreateRoom no_rooms ''AB3D'' ''p1'' ''Alice'' True)"

definition joined_store :: "int store" where
  "joined_store =
     fresh_store(''AB3D'' \<mapsto> Doc (fresh_raw\<lparr>raw_PlayerO := ''p2'', raw_PlayerOName := ''Bob'',
                                               raw_Status := ''playing''\<rparr>))"

definition board_middle_column :: "string list" where
  "board_middle_column = [''X'', ''O'', ''X'', '' '', ''O'', '' '', '' '', ''O'', ''X'']"

definition listing :: "(string \<times> int rawRoom) list" where
  "listing = [(''ZZ9Z'', raw_mixed), (''QQ2Q'', raw_private), (''AB3D'', raw_mixed)]"

section \<open>Properties\<close>


lemma sanitize_loop_length: "length (sanitize_loop fmt_f i vs b) = length b"
  by (induction vs arbitrary: i b) auto

lemma sanitize_loop_nth:
  "j < length b \<Longrightarrow>
   sanitize_loop fmt_f i vs b ! j =
     (if i \<le> j \<and> j < i + length vs \<and> j < 9 then convert_cell fmt_f (vs ! (j - i)) else b ! j)"
proof (induction vs arbitrary: i b)
  case Nil
  then show ?case by auto
next
  case (Cons v vs)
  show ?case
  proof (cases "9 \<le> i")
    case True
    then show ?thesis by auto
  next
    case False
    have "j < length (b[i := convert_cell fmt_f v])" using Cons.prems by simp
    from Cons.IH[OF this, of "Suc i"] False Cons.prems show ?thesis
      by (auto simp: nth_list_update nth_Cons' Suc_diff_le)
  qed
qed

lemma collect_public_eq:
  "collect_public fmt_f rawMap acc =
     acc @ map (\<lambda>(code, raw). sanitizeRoom fmt_f code raw) (filter (\<lambda>(code, raw). raw_IsPublic raw) rawMap)"
  by (induction rawMap arbitrary: acc) auto

lemma sanitizeRoom_fields:
  "IsPublic (sanitizeRoom fmt_f code raw) = raw_IsPublic raw"
  "Code (sanitizeRoom fmt_f code raw) = code"
  "PlayerO (sanitizeRoom fmt_f code raw) = raw_PlayerO raw"
  "Status (sanitizeRoom fmt_f code raw) = raw_Status raw"
  by (simp_all add: sanitizeRoom_def Let_def)

lemma checkWinner_loop_Cons:
  "checkWinner_loop (w # rest) b =
     (if triple_matches b w then b ! (w ! 0) else checkWinner_loop rest b)"
  by (simp add: triple_matches_def)

lemma checkWinner_loop_first:
  "k < length ws \<Longrightarrow> triple_matches b (ws ! k) \<Longrightarrow> \<forall>j<k. \<not> triple_matches b (ws ! j) \<Longrightarrow>
   checkWinner_loop ws b = b ! (ws ! k ! 0)"
proof (induction ws arbitrary: k)
  case Nil
  then show ?case by simp
next
  case (Cons w ws)
  show ?case
  proof (cases k)
    case 0
    with Cons.prems show ?thesis by (simp only: checkWinner_loop_Cons nth_Cons_0 if_True)
  next
    case (Suc k')
    have "\<not> triple_matches b w" using Cons.prems(3) Suc by auto
    moreover have "checkWinner_loop ws b = b ! (ws ! k' ! 0)"
      using Cons.prems Suc by (intro Cons.IH) auto
    ultimately show ?thesis using Suc by (simp only: checkWinner_loop_Cons nth_Cons_Suc if_False)
  qed
qed

lemma checkWinner_loop_none:
  "\<forall>k<length ws. \<not> triple_matches b (ws ! k) \<Longrightarrow> checkWinner_loop ws b = []"
proof (induction ws)
  case Nil
  then show ?case by simp
next
  case (Cons w ws)
  have "\<not> triple_matches b w" using Cons.prems by auto
  moreover have "\<forall>k<length ws. \<not> triple_matches b (ws ! k)" using Cons.prems by auto
  ultimately show ?case using Cons.IH by (simp only: checkWinner_loop_Cons if_False)
qed

lemma wins_scan: "wins = scan_order"
  by (simp add: wins_def scan_order_def row_triple_def col_triple_def)


text \<open>
  C10: the restart transaction does not test the status. For every room and every
  status it may carry, the body of \<open>RestartGame\<close> succeeds, and the room it returns
  has the all-empty board, no winner, no winning line and the status \<open>playing\<close>.
\<close>

theorem restart_any_status:
  "RestartGame_fn (Inr (r\<lparr>Status := s\<rparr>)) =
     Inr (r\<lparr>Board := replicate 9 '' '', Winner := [], WinningLine := [],
            Status := ''playing'', Turn := ''X''\<rparr>)"
proof -
  have "emptyBoard = replicate 9 '' ''"
    by (simp add: emptyBoard_def numeral_eq_Suc)
  then show ?thesis
    by (simp add: RestartGame_fn_def)
qed

theorem restart_any_status_witness:
  "RestartGame_fn (Inr (room_in_play\<lparr>Status := ''waiting''\<rparr>)) =
     Inr (room_in_play\<lparr>Board := replicate 9 '' '', Winner := [], WinningLine := [],
            Status := ''playing'', Turn := ''X''\<rparr>)"
  by (rule restart_any_status)

text \<open>
  C8: for every room the restart transaction succeeds and keeps both score counters,
  the code, both participant ids, both names and the public flag; the room it returns
  differs from the one it read in the board, winner, winning line, turn and status only.
\<close>

theorem restart_frame:
  "\<exists>r'. RestartGame_fn (Inr r) = Inr r' \<and>
     WinsX r' = WinsX r \<and> WinsO r' = WinsO r \<and> Code r' = Code r \<and>
     PlayerX r' = PlayerX r \<and> PlayerO r' = PlayerO r \<and>
     PlayerXName r' = PlayerXName r \<and> PlayerOName r' = PlayerOName r \<and>
     IsPublic r' = IsPublic r \<and>
     r' = r\<lparr>Board := Board r', Winner := Winner r', WinningLine := WinningLine r',
            Turn := Turn r', Status := Status r'\<rparr>"
  by (simp add: RestartGame_fn_def)

theorem restart_frame_witness:
  "\<exists>r'. RestartGame_fn (Inr room_won_by_O) = Inr r' \<and>
     WinsX r' = WinsX room_won_by_O \<and> WinsO r' = WinsO room_won_by_O \<and>
     Code r' = Code room_won_by_O \<and>
     PlayerX r' = PlayerX room_won_by_O \<and> PlayerO r' = PlayerO room_won_by_O \<and>
     PlayerXName r' = PlayerXName room_won_by_O \<and>
     PlayerOName r' = PlayerOName room_won_by_O \<and>
     IsPublic r' = IsPublic room_won_by_O \<and>
     r' = room_won_by_O\<lparr>Board := Board r', Winner := Winner r',
            WinningLine := WinningLine r', Turn := Turn r', Status := Status r'\<rparr>"
  by (rule restart_frame)

text \<open>
  C9: on a room whose \<open>PlayerO\<close> already is the joining id, the join transaction
  succeeds and writes \<open>PlayerO\<close>, \<open>PlayerOName\<close> and the status \<open>playing\<close> again;
  it fails with "room is full" exactly when the room has a creator and \<open>PlayerO\<close> is
  occupied by an id other than the joiner's.
\<close>

theorem join_same_joiner:
  "(raw_PlayerX raw \<noteq> [] \<and> raw_PlayerO raw = pid \<longrightarrow>
      JoinRoom_fn pid name (Inr raw) =
        Inr (raw\<lparr>raw_PlayerO := pid, raw_PlayerOName := name, raw_Status := ''playing''\<rparr>)) \<and>
   (JoinRoom_fn pid name (Inr raw) = Inl RoomIsFull \<longleftrightarrow>
      raw_PlayerX raw \<noteq> [] \<and> raw_PlayerO raw \<noteq> [] \<and> raw_PlayerO raw \<noteq> pid)"
  by (simp add: JoinRoom_fn_def)

theorem join_same_joiner_witness:
  "JoinRoom_fn ''p2'' ''Bobby'' (Inr raw_mixed) =
     Inr (raw_mixed\<lparr>raw_PlayerO := ''p2'', raw_PlayerOName := ''Bobby'',
                     raw_Status := ''playing''\<rparr>) \<and>
   JoinRoom_fn ''p3'' ''Carol'' (Inr raw_mixed) = Inl RoomIsFull"
proof -
  have x: "raw_PlayerX raw_mixed \<noteq> []" and o: "raw_PlayerO raw_mixed = ''p2''"
    by (simp_all add: raw_mixed_def)
  have "JoinRoom_fn ''p2'' ''Bobby'' (Inr raw_mixed) =
     Inr (raw_mixed\<lparr>raw_PlayerO := ''p2'', raw_PlayerOName := ''Bobby'',
                     raw_Status := ''playing''\<rparr>)"
    using join_same_joiner [of raw_mixed "''p2''" "''Bobby''"] x o by blast
  moreover have "JoinRoom_fn ''p3'' ''Carol'' (Inr raw_mixed) = Inl RoomIsFull"
    using join_same_joiner [of raw_mixed "''p3''" "''Carol''"] x o by simp
  ultimately show ?thesis by blast
qed


text \<open>
  \<open>RestartGame\<close> receives neither a rule nor the previous winner: on the finished
  room that O has won it sets the turn to X, not to O.
\<close>

theorem RestartGame_turn_counterexample:
  "Status room_won_by_O = ''finished'' \<and> Winner room_won_by_O = ''O'' \<and>
   map_sum id Turn (RestartGame_fn (Inr room_won_by_O)) = Inr ''X'' \<and>
   map_sum id Turn (RestartGame_fn (Inr room_won_by_O)) \<noteq> Inr ''O''"
  by (simp add: RestartGame_fn_def room_won_by_O_def)

text \<open>
  C1 (amended): the transaction of \<open>triggerRematchCmd(code, rule, prevWinner)\<close>
  computes the turn from the rule and the previous winner: under the rule
  \<open>"winner"\<close> the turn is O when the previous winner is O and X otherwise, so X
  after a draw (no previous winner). The transaction of \<open>RestartGame(code)\<close> sets
  the turn to X for every room.
\<close>

theorem restart_turn:
  "(\<exists>r'. triggerRematch_fn ''winner'' prevWinner coin (Inr r) = Inr r' \<and>
         rd_Turn r' = (if prevWinner = ''O'' then ''O'' else ''X'')) \<and>
   (\<exists>r'. triggerRematch_fn ''winner'' ''O'' coin (Inr r) = Inr r' \<and> rd_Turn r' = ''O'') \<and>
   (\<exists>r'. triggerRematch_fn ''winner'' [] coin (Inr r) = Inr r' \<and> rd_Turn r' = ''X'') \<and>
   (\<exists>g'. RestartGame_fn (Inr g) = Inr g' \<and> Turn g' = ''X'')"
proof -
  have rule_winner: "''winner'' \<noteq> ''random''" by simp
  have "\<exists>r'. triggerRematch_fn ''winner'' w coin (Inr r) = Inr r' \<and>
         rd_Turn r' = (if w = ''O'' then ''O'' else ''X'')" for w
    using rule_winner by (simp add: triggerRematch_fn_def Let_def)
  moreover have "\<exists>g'. RestartGame_fn (Inr g) = Inr g' \<and> Turn g' = ''X''"
    by (simp add: RestartGame_fn_def)
  ultimately show ?thesis by (simp add: triggerRematch_fn_def Let_def)
qed

theorem restart_turn_witness:
  "(\<exists>r'. triggerRematch_fn ''winner'' ''O'' 1 (Inr rd_won_by_O) = Inr r' \<and> rd_Turn r' = ''O'') \<and>
   (\<exists>r'. triggerRematch_fn ''winner'' [] 1 (Inr rd_won_by_O) = Inr r' \<and> rd_Turn r' = ''X'') \<and>
   (\<exists>g'. RestartGame_fn (Inr room_won_by_O) = Inr g' \<and> Turn g' = ''X'')"
  using restart_turn [of "''O''" 1 rd_won_by_O room_won_by_O] by blast

lemma ref_Get_Doc: "st code = Some (Doc raw) \<Longrightarrow> ref_Get st code = Inr raw"
  by (simp add: ref_Get_def)

text \<open>
  C4: on a room (a document with a creator) whose \<open>PlayerO\<close> is occupied by another
  id, the join transaction fails with "room is full" and the store is as before; on a
  room whose \<open>PlayerO\<close> is empty it writes \<open>PlayerO\<close>, \<open>PlayerOName\<close> and the
  status \<open>playing\<close>. Hence, of two joins by different ids on a room with an empty
  slot, the one the store serves first succeeds and the other fails with "room is
  full", leaving the first joiner in place (either join may be the first; a participant
  id is a non-empty string, the empty one marking the free slot).
\<close>

theorem join_race:
  assumes room: "st code = Some (Doc raw)" "raw_PlayerX raw \<noteq> []"
  shows "(raw_PlayerO raw \<noteq> [] \<and> raw_PlayerO raw \<noteq> pid \<longrightarrow>
            JoinRoom_fn pid name (Inr raw) = Inl RoomIsFull \<and>
            JoinRoom st code pid name = (st, Some RoomIsFull)) \<and>
         (raw_PlayerO raw = [] \<longrightarrow>
            JoinRoom_fn pid name (Inr raw) =
              Inr (raw\<lparr>raw_PlayerO := pid, raw_PlayerOName := name, raw_Status := ''playing''\<rparr>) \<and>
            JoinRoom st code pid name =
              (st(code \<mapsto> Doc (raw\<lparr>raw_PlayerO := pid, raw_PlayerOName := name,
                                      raw_Status := ''playing''\<rparr>)), None)) \<and>
         (raw_PlayerO raw = [] \<and> p1 \<noteq> [] \<and> p1 \<noteq> p2 \<longrightarrow>
            (\<exists>st1. JoinRoom st code p1 n1 = (st1, None) \<and>
                   st1 code = Some (Doc (raw\<lparr>raw_PlayerO := p1, raw_PlayerOName := n1,
                                              raw_Status := ''playing''\<rparr>)) \<and>
                   JoinRoom st1 code p2 n2 = (st1, Some RoomIsFull)))"
proof -
  have get: "ref_Get st code = Inr raw" using room(1) by (rule ref_Get_Doc)
  have full: "raw_PlayerO raw \<noteq> [] \<and> raw_PlayerO raw \<noteq> pid \<longrightarrow>
            JoinRoom_fn pid name (Inr raw) = Inl RoomIsFull \<and>
            JoinRoom st code pid name = (st, Some RoomIsFull)"
    using room(2) get by (simp add: JoinRoom_def Transaction_def JoinRoom_fn_def)
  have free: "raw_PlayerO raw = [] \<longrightarrow>
            JoinRoom_fn pid name (Inr raw) =
              Inr (raw\<lparr>raw_PlayerO := pid, raw_PlayerOName := name, raw_Status := ''playing''\<rparr>) \<and>
            JoinRoom st code pid name =
              (st(code \<mapsto> Doc (raw\<lparr>raw_PlayerO := pid, raw_PlayerOName := name,
                                      raw_Status := ''playing''\<rparr>)), None)"
    using room(2) get by (simp add: JoinRoom_def Transaction_def JoinRoom_fn_def)
  have race: "raw_PlayerO raw = [] \<and> p1 \<noteq> [] \<and> p1 \<noteq> p2 \<longrightarrow>
            (\<exists>st1. JoinRoom st code p1 n1 = (st1, None) \<and>
                   st1 code = Some (Doc (raw\<lparr>raw_PlayerO := p1, raw_PlayerOName := n1,
                                              raw_Status := ''playing''\<rparr>)) \<and>
                   JoinRoom st1 code p2 n2 = (st1, Some RoomIsFull))"
  proof (intro impI)
    assume a: "raw_PlayerO raw = [] \<and> p1 \<noteq> [] \<and> p1 \<noteq> p2"
    define raw1 where "raw1 = raw\<lparr>raw_PlayerO := p1, raw_PlayerOName := n1,
                                    raw_Status := ''playing''\<rparr>"
    define st1 where "st1 = st(code \<mapsto> Doc raw1)"
    have first: "JoinRoom st code p1 n1 = (st1, None)"
      using room(2) get a by (simp add: JoinRoom_def Transaction_def JoinRoom_fn_def st1_def raw1_def)
    have get1: "ref_Get st1 code = Inr raw1"
      by (rule ref_Get_Doc) (simp add: st1_def)
    have "JoinRoom_fn p2 n2 (Inr raw1) = Inl RoomIsFull"
      using room(2) a by (simp add: JoinRoom_fn_def raw1_def)
    then have second: "JoinRoom st1 code p2 n2 = (st1, Some RoomIsFull)"
      using get1 by (simp add: JoinRoom_def Transaction_def)
    have "st1 code = Some (Doc raw1)" by (simp add: st1_def)
    with first second show "\<exists>st1. JoinRoom st code p1 n1 = (st1, None) \<and>
                   st1 code = Some (Doc (raw\<lparr>raw_PlayerO := p1, raw_PlayerOName := n1,
                                              raw_Status := ''playing''\<rparr>)) \<and>
                   JoinRoom st1 code p2 n2 = (st1, Some RoomIsFull)"
      unfolding raw1_def by blast
  qed
  from full free race show ?thesis by (intro conjI)
qed

theorem join_race_witness:
  "fresh_store ''AB3D'' = Some (Doc fresh_raw) \<and>
   raw_PlayerX fresh_raw = ''p1'' \<and> raw_PlayerO fresh_raw = [] \<and>
   JoinRoom fresh_store ''AB3D'' ''p2'' ''Bob'' = (joined_store, None) \<and>
   JoinRoom joined_store ''AB3D'' ''p3'' ''Carol'' = (joined_store, Some RoomIsFull)"
proof -
  have doc: "fresh_store ''AB3D'' = Some (Doc fresh_raw)"
    by (simp add: fresh_store_def fresh_raw_def CreateRoom_def ref_Set_def)
  have host: "raw_PlayerX fresh_raw \<noteq> []" and host': "raw_PlayerX fresh_raw = ''p1''"
    and slot: "raw_PlayerO fresh_raw = []"
    by (simp_all add: fresh_raw_def encode_def)
  note j = join_race [where st = fresh_store and code = "''AB3D''" and raw = fresh_raw
      and pid = "''p2''" and name = "''Bob''" and ?p1.0 = "''p2''" and ?p2.0 = "''p3''"
      and ?n1.0 = "''Bob''" and ?n2.0 = "''Carol''", OF doc host]
  have first: "JoinRoom fresh_store ''AB3D'' ''p2'' ''Bob'' = (joined_store, None)"
    using j slot by (simp add: joined_store_def)
  have "\<exists>st1. JoinRoom fresh_store ''AB3D'' ''p2'' ''Bob'' = (st1, None) \<and>
          JoinRoom st1 ''AB3D'' ''p3'' ''Carol'' = (st1, Some RoomIsFull)"
    using j slot by auto
  with first have "JoinRoom joined_store ''AB3D'' ''p3'' ''Carol'' = (joined_store, Some RoomIsFull)"
    by auto
  with doc host' slot first show ?thesis by simp
qed

text \<open>
  C7: for every store, code, non-empty host id, host name and public flag,
  \<open>CreateRoom\<close> succeeds and \<open>GetRoom\<close> on the resulting store returns a room
  with the status \<open>waiting\<close>, an empty \<open>PlayerO\<close> and the public flag given (so
  \<open>true\<close> for a room created public), with the code, host and empty board as created.
\<close>

theorem create_then_get:
  assumes "pid \<noteq> []"
  shows "\<exists>st' r. CreateRoom st code pid name public = (st', None) \<and>
           GetRoom fmt_f st' code = Inr r \<and>
           Status r = ''waiting'' \<and> PlayerO r = [] \<and> IsPublic r = public \<and>
           Code r = code \<and> PlayerX r = pid \<and> PlayerXName r = name \<and> Board r = emptyBoard"
proof -
  define r0 where "r0 = \<lparr>Code = code, Board = emptyBoard, Turn = ''X'', PlayerX = pid,
      PlayerO = [], PlayerXName = name, PlayerOName = [], IsPublic = public, Winner = [],
      WinningLine = [], Status = ''waiting'', WinsX = 0, WinsO = 0\<rparr>"
  define st' where "st' = st(code \<mapsto> Doc (encode r0 :: 'a rawRoom))"
  have created: "CreateRoom st code pid name public = (st', None)"
    by (simp add: CreateRoom_def ref_Set_def st'_def r0_def)
  have "ref_Get st' code = Inr (encode r0)"
    by (rule ref_Get_Doc) (simp add: st'_def)
  moreover have "raw_PlayerX (encode r0 :: 'a rawRoom) \<noteq> []"
    using assms by (simp add: encode_def r0_def)
  ultimately have got: "GetRoom fmt_f st' code = Inr (sanitizeRoom fmt_f code (encode r0))"
    by (simp add: GetRoom_def)
  have board: "sanitize_loop fmt_f 0 (map JString emptyBoard) emptyBoard = emptyBoard"
    by (simp add: emptyBoard_def)
  have "Board (sanitizeRoom fmt_f code (encode r0)) = emptyBoard"
    by (simp add: sanitizeRoom_def Let_def encode_def r0_def board)
  with created got show ?thesis
    by (simp add: sanitizeRoom_def Let_def encode_def r0_def)
qed

theorem create_then_get_witness:
  "\<exists>st' r. CreateRoom no_rooms ''AB3D'' ''p1'' ''Alice'' True = (st', None) \<and>
           GetRoom Sprintf_d st' ''AB3D'' = Inr r \<and>
           Status r = ''waiting'' \<and> PlayerO r = [] \<and> IsPublic r = True \<and>
           Code r = ''AB3D'' \<and> PlayerX r = ''p1'' \<and> PlayerXName r = ''Alice'' \<and>
           Board r = emptyBoard"
proof -
  have "''p1'' \<noteq> []" by simp
  then show ?thesis by (rule create_then_get)
qed

text \<open>
  A numeric entry is not replaced by the empty cell: in the mixed document the raw
  entry at index 1 is the number 0, and the sanitized board holds \<open>"0"\<close> there.
\<close>

theorem sanitize_numeric_counterexample:
  "raw_Board raw_mixed ! 1 = JFloat 0 \<and>
   Board (sanitizeRoom Sprintf_d ''AB3D'' raw_mixed) =
     [''X'', ''0'', '' '', ''O'', '' '', '' '', '' '', '' '', '' ''] \<and>
   Board (sanitizeRoom Sprintf_d ''AB3D'' raw_mixed) ! 1 \<noteq> '' '' \<and>
   GetRoom Sprintf_d (no_rooms(''AB3D'' \<mapsto> Doc raw_mixed)) ''AB3D'' =
     Inr (sanitizeRoom Sprintf_d ''AB3D'' raw_mixed)"
proof -
  have zero: "Sprintf_d 0 = ''0''"
    by code_simp
  have entry: "raw_Board raw_mixed ! 1 = JFloat 0"
    by (simp add: raw_mixed_def)
  have board: "Board (sanitizeRoom Sprintf_d ''AB3D'' raw_mixed) =
     [''X'', ''0'', '' '', ''O'', '' '', '' '', '' '', '' '', '' '']"
    by (simp add: sanitizeRoom_def Let_def raw_mixed_def emptyBoard_def zero)
  have kept: "Board (sanitizeRoom Sprintf_d ''AB3D'' raw_mixed) ! 1 \<noteq> '' ''"
    unfolding board by simp
  have read: "GetRoom Sprintf_d (no_rooms(''AB3D'' \<mapsto> Doc raw_mixed)) ''AB3D'' =
     Inr (sanitizeRoom Sprintf_d ''AB3D'' raw_mixed)"
    by (simp add: GetRoom_def ref_Get_def raw_mixed_def)
  from entry board kept read show ?thesis by (intro conjI)
qed

text \<open>
  C2 (amended): for every raw document the sanitized room has a board of exactly 9
  cells, and each cell is determined by the raw entry at its index: the empty cell
  \<open>" "\<close> when the entry is missing (the raw board is too short) or is neither a
  string nor a number; the string itself, whatever it is, when the entry is a string;
  the decimal text of the number (\<open>%.0f\<close> of a \<open>float64\<close>, \<open>%d\<close> of an \<open>int\<close>)
  when the entry is numeric. \<open>GetRoom\<close> returns this sanitized room for every stored
  document with a creator, and "room does not exist" for one without.
\<close>

theorem sanitize_board_cells:
  "length (Board (sanitizeRoom fmt_f code raw)) = 9 \<and>
   (\<forall>i<9. Board (sanitizeRoom fmt_f code raw) ! i =
      (if length (raw_Board raw) \<le> i then '' ''
       else case raw_Board raw ! i of
              JString s \<Rightarrow> s
            | JFloat v \<Rightarrow> fmt_f v
            | JInt n \<Rightarrow> Sprintf_d n
            | JOther \<Rightarrow> '' '')) \<and>
   (st code = Some (Doc raw) \<and> raw_PlayerX raw \<noteq> [] \<longrightarrow>
      GetRoom fmt_f st code = Inr (sanitizeRoom fmt_f code raw)) \<and>
   (st code = Some (Doc raw) \<and> raw_PlayerX raw = [] \<longrightarrow>
      GetRoom fmt_f st code = Inl RoomDoesNotExist)"
proof -
  have board: "Board (sanitizeRoom fmt_f code raw) = sanitize_loop fmt_f 0 (raw_Board raw) emptyBoard"
    by (simp add: sanitizeRoom_def Let_def)
  have len: "length emptyBoard = 9" by (simp add: emptyBoard_def)
  have empty: "emptyBoard ! i = '' ''" if "i < 9" for i
  proof -
    have eq: "emptyBoard = replicate 9 '' ''" by (simp add: emptyBoard_def numeral_eq_Suc)
    show ?thesis unfolding eq using that by (rule nth_replicate)
  qed
  have switch: "convert_cell fmt_f e =
      (case e of JString s \<Rightarrow> s | JFloat v \<Rightarrow> fmt_f v | JInt n \<Rightarrow> Sprintf_d n | JOther \<Rightarrow> '' '')"
    for e
    by (cases e) simp_all
  have cells: "Board (sanitizeRoom fmt_f code raw) ! i =
      (if length (raw_Board raw) \<le> i then '' ''
       else case raw_Board raw ! i of
              JString s \<Rightarrow> s
            | JFloat v \<Rightarrow> fmt_f v
            | JInt n \<Rightarrow> Sprintf_d n
            | JOther \<Rightarrow> '' '')"
    if "i < 9" for i
  proof -
    have "i < length emptyBoard" using that len by simp
    from sanitize_loop_nth [OF this, of fmt_f 0 "raw_Board raw"] that empty [OF that]
    show ?thesis unfolding board by (simp add: switch)
  qed
  have found: "GetRoom fmt_f st code = Inr (sanitizeRoom fmt_f code raw)"
    if "st code = Some (Doc raw)" and "raw_PlayerX raw \<noteq> []"
    using that by (simp add: GetRoom_def ref_Get_def)
  have missing: "GetRoom fmt_f st code = Inl RoomDoesNotExist"
    if "st code = Some (Doc raw)" and "raw_PlayerX raw = []"
    using that by (simp add: GetRoom_def ref_Get_def)
  have size: "length (Board (sanitizeRoom fmt_f code raw)) = 9"
    by (simp add: board sanitize_loop_length len)
  from size cells found missing show ?thesis by blast
qed

theorem sanitize_board_cells_witness:
  "length (Board (sanitizeRoom Sprintf_d ''AB3D'' raw_mixed)) = 9 \<and>
   Board (sanitizeRoom Sprintf_d ''AB3D'' raw_mixed) ! 0 = ''X'' \<and>
   Board (sanitizeRoom Sprintf_d ''AB3D'' raw_mixed) ! 1 = Sprintf_d 0 \<and>
   Board (sanitizeRoom Sprintf_d ''AB3D'' raw_mixed) ! 2 = '' '' \<and>
   Board (sanitizeRoom Sprintf_d ''AB3D'' raw_mixed) ! 3 = ''O'' \<and>
   Board (sanitizeRoom Sprintf_d ''AB3D'' raw_mixed) ! 7 = '' '' \<and>
   GetRoom Sprintf_d (no_rooms(''AB3D'' \<mapsto> Doc raw_mixed)) ''AB3D'' =
     Inr (sanitizeRoom Sprintf_d ''AB3D'' raw_mixed) \<and>
   GetRoom Sprintf_d (no_rooms(''AB3D'' \<mapsto> Doc (raw_mixed\<lparr>raw_PlayerX := []\<rparr>))) ''AB3D'' =
     Inl RoomDoesNotExist"
proof -
  note t = sanitize_board_cells [of Sprintf_d "''AB3D''" raw_mixed
      "no_rooms(''AB3D'' \<mapsto> Doc raw_mixed)"]
  note cell = t [THEN conjunct2, THEN conjunct1, rule_format]
  note u = sanitize_board_cells [of Sprintf_d "''AB3D''" "raw_mixed\<lparr>raw_PlayerX := []\<rparr>"
      "no_rooms(''AB3D'' \<mapsto> Doc (raw_mixed\<lparr>raw_PlayerX := []\<rparr>))"]
  have entries: "raw_Board raw_mixed = [JString ''X'', JFloat 0, JOther, JString ''O'']"
    and host: "raw_PlayerX raw_mixed \<noteq> []"
    by (simp_all add: raw_mixed_def)
  have size: "length (Board (sanitizeRoom Sprintf_d ''AB3D'' raw_mixed)) = 9"
    by (rule t [THEN conjunct1])
  have c0: "Board (sanitizeRoom Sprintf_d ''AB3D'' raw_mixed) ! 0 = ''X''"
    using cell [of 0] by (simp add: entries)
  have c1: "Board (sanitizeRoom Sprintf_d ''AB3D'' raw_mixed) ! 1 = Sprintf_d 0"
    using cell [of 1] by (simp add: entries)
  have c2: "Board (sanitizeRoom Sprintf_d ''AB3D'' raw_mixed) ! 2 = '' ''"
    using cell [of 2] by (simp add: entries)
  have c3: "Board (sanitizeRoom Sprintf_d ''AB3D'' raw_mixed) ! 3 = ''O''"
    using cell [of 3] by (simp add: entries)
  have c7: "Board (sanitizeRoom Sprintf_d ''AB3D'' raw_mixed) ! 7 = '' ''"
    using cell [of 7] by (simp add: entries)
  have found: "GetRoom Sprintf_d (no_rooms(''AB3D'' \<mapsto> Doc raw_mixed)) ''AB3D'' =
     Inr (sanitizeRoom Sprintf_d ''AB3D'' raw_mixed)"
    using t host by simp
  have missing: "GetRoom Sprintf_d
      (no_rooms(''AB3D'' \<mapsto> Doc (raw_mixed\<lparr>raw_PlayerX := []\<rparr>))) ''AB3D'' =
     Inl RoomDoesNotExist"
    using u by simp
  from size c0 c1 c2 c3 c7 found missing show ?thesis by (intro conjI)
qed


text \<open>
  C5: on every 9-cell board, \<open>checkWinner\<close> scans the eight triples of \<open>wins\<close>,
  which are the rows top to bottom, then the columns left to right, then the two
  diagonals; it returns the mark of the first triple in that order whose three cells
  are equal and not the empty cell, and the empty string (no winner) when no triple
  matches.
\<close>

theorem checkWinner_scan_order:
  assumes "length b = 9"
  shows "wins = scan_order \<and> length scan_order = 8 \<and>
         (\<forall>k<8. triple_matches b (scan_order ! k) \<and>
                 (\<forall>j<k. \<not> triple_matches b (scan_order ! j)) \<longrightarrow>
                 checkWinner b = b ! (scan_order ! k ! 0)) \<and>
         ((\<forall>k<8. \<not> triple_matches b (scan_order ! k)) \<longrightarrow> checkWinner b = [])"
proof -
  have len: "length scan_order = 8" by (simp add: scan_order_def)
  have first: "checkWinner b = b ! (scan_order ! k ! 0)"
    if "k < 8" "triple_matches b (scan_order ! k)" "\<forall>j<k. \<not> triple_matches b (scan_order ! j)" for k
    unfolding checkWinner_def wins_scan
    using that len by (intro checkWinner_loop_first) simp_all
  have none: "checkWinner b = []" if "\<forall>k<8. \<not> triple_matches b (scan_order ! k)"
    unfolding checkWinner_def wins_scan
    using that len by (intro checkWinner_loop_none) simp
  from first none len wins_scan show ?thesis by blast
qed

lemma board_middle_column_rows:
  "\<not> triple_matches board_middle_column (scan_order ! 0)"
  "\<not> triple_matches board_middle_column (scan_order ! 1)"
  "\<not> triple_matches board_middle_column (scan_order ! 2)"
  "\<not> triple_matches board_middle_column (scan_order ! 3)"
  "triple_matches board_middle_column (scan_order ! 4)"
  by (simp_all add: triple_matches_def board_middle_column_def scan_order_def
      row_triple_def col_triple_def)

theorem checkWinner_scan_order_witness:
  "length board_middle_column = 9 \<and> triple_matches board_middle_column (scan_order ! 4) \<and>
   checkWinner board_middle_column = ''O''"
proof -
  have len: "length board_middle_column = 9" by (simp add: board_middle_column_def)
  have before: "\<forall>j<4. \<not> triple_matches board_middle_column (scan_order ! j)"
  proof (intro allI impI)
    fix j :: nat
    assume "j < 4"
    then have "j = 0 \<or> j = 1 \<or> j = 2 \<or> j = 3" by arith
    then show "\<not> triple_matches board_middle_column (scan_order ! j)"
      using board_middle_column_rows by blast
  qed
  have "checkWinner board_middle_column = board_middle_column ! (scan_order ! 4 ! 0)"
    using checkWinner_scan_order [OF len] board_middle_column_rows(5) before by simp
  moreover have "board_middle_column ! (scan_order ! 4 ! 0) = ''O''"
    by (simp add: board_middle_column_def scan_order_def col_triple_def)
  ultimately show ?thesis using len board_middle_column_rows(5) by simp
qed

text \<open>
  C6: \<open>GetPublicRooms\<close> passes a failed fetch on; otherwise it returns a list that
  is sorted in ascending order of the room code, in which every room is public, and
  which holds exactly the sanitized public entries of the fetched map.
\<close>

theorem public_rooms_sorted:
  "GetPublicRooms fmt_f (Inl err) = Inl err \<and>
   (\<exists>rooms. GetPublicRooms fmt_f (Inr rawMap) = Inr rooms \<and>
      sorted (map Code rooms) \<and> (\<forall>r\<in>set rooms. IsPublic r) \<and>
      set rooms = {sanitizeRoom fmt_f code raw | code raw.
                     (code, raw) \<in> set rawMap \<and> raw_IsPublic raw})"
proof -
  define list where "list = collect_public fmt_f rawMap []"
  have list: "list = map (\<lambda>(code, raw). sanitizeRoom fmt_f code raw)
                         (filter (\<lambda>(code, raw). raw_IsPublic raw) rawMap)"
    unfolding list_def by (simp add: collect_public_eq)
  have result: "GetPublicRooms fmt_f (Inr rawMap) = Inr (sort_key Code list)"
    by (simp add: GetPublicRooms_def list_def)
  have ordered: "sorted (map Code (sort_key Code list))"
    by (rule sorted_sort_key)
  have same: "set (sort_key Code list) = set list"
    by (rule set_sort)
  have "IsPublic r" if "r \<in> set list" for r
    using that unfolding list by (auto simp: sanitizeRoom_fields)
  then have public: "\<forall>r\<in>set (sort_key Code list). IsPublic r"
    using same by blast
  have "set list = {sanitizeRoom fmt_f code raw | code raw.
                     (code, raw) \<in> set rawMap \<and> raw_IsPublic raw}"
    unfolding list by force
  with same result ordered public show ?thesis
    by (simp add: GetPublicRooms_def)
qed

theorem public_rooms_sorted_witness:
  "map_sum id (map Code) (GetPublicRooms Sprintf_d (Inr listing)) = Inr [''AB3D'', ''ZZ9Z''] \<and>
   map_sum id (map IsPublic) (GetPublicRooms Sprintf_d (Inr listing)) = Inr [True, True]"
  using public_rooms_sorted [of Sprintf_d StoreError listing]
  by (simp add: GetPublicRooms_def listing_def sanitizeRoom_fields raw_private_def raw_mixed_def)














end
